theory Spec2Isabelle
  imports Complex_Main "HOL-Library.Sublist" "HOL-Library.Signed_Division"
begin

section \<open>The element store of SyncMethod (SyncMethod.h)\<close>

text \<open>
  \<^verbatim>\<open>vector<shared_ptr<DataObject>> elements\<close> holds shared pointers. A shared pointer is
  modelled by the address of the object it points to (or null); \<^verbatim>\<open>operator==\<close> on two
  shared pointers compares these addresses, never the objects. The objects themselves
  live in a heap from addresses to contents; \<^verbatim>\<open>DataObject\<close> is declared outside the
  files at hand, so its content is a type parameter.
\<close>

datatype shared_ptr = Null | Ptr nat

type_synonym 'v heap = "nat \<rightharpoonup> 'v"

fun deref :: "'v heap \<Rightarrow> shared_ptr \<Rightarrow> 'v option" where
  "deref h Null = None"
| "deref h (Ptr a) = h a"

text \<open>
  The erase-remove idiom of \<^verbatim>\<open>delElem\<close>:
  \<^verbatim>\<open>elements.erase(std::remove(elements.begin(), elements.end(), datum), elements.end())\<close>.
  \<^verbatim>\<open>std::remove\<close> moves the elements that do not compare equal to the value to the front,
  in their order, and returns the end of that range; \<^verbatim>\<open>erase\<close> cuts the vector there.
\<close>

primrec erase_remove :: "'a list \<Rightarrow> 'a \<Rightarrow> 'a list" where
  "erase_remove [] v = []"
| "erase_remove (x # xs) v = (if x = v then erase_remove xs v else x # erase_remove xs v)"

section \<open>SyncMethod::SyncStats\<close>

text \<open>
  \<^verbatim>\<open>enum StatID { NONE=0, XMIT, RECV, COMM_TIME, IDLE_TIME, COMP_TIME, ALL }\<close>; the
  unary \<^verbatim>\<open>operator+\<close> casts an id to its integer.
\<close>

datatype StatID = NONE | XMIT | RECV | COMM_TIME | IDLE_TIME | COMP_TIME | ALL_STATS

fun stat_index :: "StatID \<Rightarrow> nat" where
  "stat_index NONE = 0"
| "stat_index XMIT = 1"
| "stat_index RECV = 2"
| "stat_index COMM_TIME = 3"
| "stat_index IDLE_TIME = 4"
| "stat_index COMP_TIME = 5"
| "stat_index ALL_STATS = 6"

text \<open>
  \<^verbatim>\<open>std::chrono::high_resolution_clock\<close> is outside the program. A time point is its count
  of clock ticks; the clock is given by the readings that the successive calls of
  \<^verbatim>\<open>now()\<close> return and by its tick period, \<open>period_num / period_den\<close> seconds.
  Every operation that reads the clock carries the number of readings taken so far.
\<close>

type_synonym time_point = int

record hr_clock =
  now :: "nat \<Rightarrow> time_point"
  period_num :: int
  period_den :: int

text \<open>
  \<^verbatim>\<open>duration_cast<microseconds>(d).count()\<close>: the tick count converted to whole
  microseconds, by an integer division that truncates toward zero.
\<close>

definition microseconds :: "hr_clock \<Rightarrow> int \<Rightarrow> int" where
  "microseconds clk d = (d * period_num clk * 1000000) sdiv period_den clk"

text \<open>
  The C++ \<^verbatim>\<open>double\<close> is modelled by \<^typ>\<open>real\<close>: additions are exact, \<^verbatim>\<open>1e-6\<close> is
  \<open>1 / 1000000\<close> and there is no NaN or infinity.
\<close>

definition elapsed_seconds :: "hr_clock \<Rightarrow> time_point \<Rightarrow> time_point \<Rightarrow> real" where
  "elapsed_seconds clk t1 t0 = of_int (microseconds clk (t1 - t0)) * (1 / 1000000)"

text \<open>
  \<^verbatim>\<open>double dataArray[(+ALL)+1]\<close> and \<^verbatim>\<open>time_point startTimeArray[(+ALL)+1]\<close>: arrays
  indexed by the integer of a StatID. Every index the code uses is the integer of a StatID
  or runs from \<^verbatim>\<open>(+NONE)+1\<close> up to \<^verbatim>\<open>+ALL\<close> (exclusive), hence lies inside the array.
\<close>

record SyncStats =
  dataArray :: "nat \<Rightarrow> real"
  startTimeArray :: "nat \<Rightarrow> time_point"

text \<open>The loops \<^verbatim>\<open>for(int ii = (+NONE)+1; ii < +ALL; ii++)\<close> run over these indices.\<close>

definition counter_indices :: "nat list" where
  "counter_indices = [stat_index NONE + 1 ..< stat_index ALL_STATS]"

text \<open>The constructor zeroes the five counters; the other slots keep what the memory held.\<close>

definition SyncStats_new :: "(nat \<Rightarrow> real) \<Rightarrow> (nat \<Rightarrow> time_point) \<Rightarrow> SyncStats" where
  "SyncStats_new d0 t0 =
     fold (\<lambda>ii s. s\<lparr>dataArray := (dataArray s)(ii := 0)\<rparr>) counter_indices
       \<lparr>dataArray = d0, startTimeArray = t0\<rparr>"

definition reset :: "StatID \<Rightarrow> SyncStats \<Rightarrow> SyncStats" where
  "reset statID s =
     (if statID \<noteq> ALL_STATS then s\<lparr>dataArray := (dataArray s)(stat_index statID := 0)\<rparr>
      else fold (\<lambda>ii s. s\<lparr>dataArray := (dataArray s)(ii := 0)\<rparr>) counter_indices s)"

definition getStat :: "StatID \<Rightarrow> SyncStats \<Rightarrow> real" where
  "getStat statID s = dataArray s (stat_index statID)"

text \<open>
  \<^verbatim>\<open>dataArray[ii] += (ii==(+XMIT) || ii==(+RECV) ? floor(incr) : incr)\<close> for every
  \<^verbatim>\<open>ii\<close> of the loop with \<^verbatim>\<open>ii==(+statID) || statID==ALL\<close>.
\<close>

definition increment :: "StatID \<Rightarrow> real \<Rightarrow> SyncStats \<Rightarrow> SyncStats" where
  "increment statID incr s =
     fold (\<lambda>ii s.
             if ii = stat_index statID \<or> statID = ALL_STATS
             then s\<lparr>dataArray := (dataArray s)
                    (ii := dataArray s ii +
                       (if ii = stat_index XMIT \<or> ii = stat_index RECV
                        then of_int \<lfloor>incr\<rfloor> else incr))\<rparr>
             else s)
       counter_indices s"

definition timerStart :: "hr_clock \<Rightarrow> StatID \<Rightarrow> SyncStats \<times> nat \<Rightarrow> SyncStats \<times> nat" where
  "timerStart clk timerID st =
     (if timerID \<noteq> ALL_STATS
      then (case st of (s, k) \<Rightarrow>
              (s\<lparr>startTimeArray := (startTimeArray s)(stat_index timerID := now clk k)\<rparr>, Suc k))
      else fold (\<lambda>ii (s, k).
                   (s\<lparr>startTimeArray := (startTimeArray s)(ii := now clk k)\<rparr>, Suc k))
             counter_indices st)"

definition timerEnd :: "hr_clock \<Rightarrow> StatID \<Rightarrow> SyncStats \<times> nat \<Rightarrow> SyncStats \<times> nat" where
  "timerEnd clk timerID st =
     (if timerID \<noteq> ALL_STATS
      then (case st of (s, k) \<Rightarrow>
              (s\<lparr>dataArray := (dataArray s)
                   (stat_index timerID := dataArray s (stat_index timerID) +
                      elapsed_seconds clk (now clk k) (startTimeArray s (stat_index timerID)))\<rparr>,
               Suc k))
      else fold (\<lambda>ii (s, k).
                   (s\<lparr>dataArray := (dataArray s)
                        (ii := dataArray s ii +
                           elapsed_seconds clk (now clk k) (startTimeArray s ii))\<rparr>,
                    Suc k))
             counter_indices st)"

definition totalTime :: "SyncStats \<Rightarrow> real" where
  "totalTime s =
     dataArray s (stat_index COMM_TIME) + dataArray s (stat_index IDLE_TIME)
       + dataArray s (stat_index COMP_TIME)"

text \<open>A call of one of the mutating operations of SyncStats, and a sequence of such calls.\<close>

datatype stats_call =
  Reset StatID | Increment StatID real | TimerStart StatID | TimerEnd StatID

fun do_call :: "hr_clock \<Rightarrow> stats_call \<Rightarrow> SyncStats \<times> nat \<Rightarrow> SyncStats \<times> nat" where
  "do_call clk (Reset statID) (s, k) = (reset statID s, k)"
| "do_call clk (Increment statID incr) (s, k) = (increment statID incr s, k)"
| "do_call clk (TimerStart timerID) (s, k) = timerStart clk timerID (s, k)"
| "do_call clk (TimerEnd timerID) (s, k) = timerEnd clk timerID (s, k)"

fun do_calls :: "hr_clock \<Rightarrow> stats_call list \<Rightarrow> SyncStats \<times> nat \<Rightarrow> SyncStats \<times> nat" where
  "do_calls clk [] st = st"
| "do_calls clk (c # cs) st = do_calls clk cs (do_call clk c st)"

text \<open>
  What the claim about \<^verbatim>\<open>increment\<close> calls truncation toward zero, to compare with the
  code's \<^verbatim>\<open>floor\<close>.
\<close>

definition truncate_toward_zero :: "real \<Rightarrow> int" where
  "truncate_toward_zero x = (if 0 \<le> x then \<lfloor>x\<rfloor> else \<lceil>x\<rceil>)"

section \<open>SyncMethod: store operations, sessions, post-processing\<close>

text \<open>
  The fields of \<^verbatim>\<open>SyncMethod\<close> that its own methods use: the statistics and the store.
\<close>

record SyncMethod =
  mySyncStats :: SyncStats
  elements :: "shared_ptr list"

definition addElem :: "shared_ptr \<Rightarrow> SyncMethod \<Rightarrow> bool \<times> SyncMethod" where
  "addElem datum m = (True, m\<lparr>elements := elements m @ [datum]\<rparr>)"

definition delElem :: "shared_ptr \<Rightarrow> SyncMethod \<Rightarrow> bool \<times> SyncMethod" where
  "delElem datum m =
     (let before = length (elements m);
          m' = m\<lparr>elements := erase_remove (elements m) datum\<rparr>
      in (before > length (elements m'), m'))"

definition getNumElem :: "SyncMethod \<Rightarrow> nat" where
  "getNumElem m = length (elements m)"

text \<open>
  What the claim about \<^verbatim>\<open>delElem\<close> describes: only the first stored element equal to the
  datum goes. It is compared with the code's \<^const>\<open>erase_remove\<close> below.
\<close>

primrec remove_first :: "'a list \<Rightarrow> 'a \<Rightarrow> 'a list" where
  "remove_first [] v = []"
| "remove_first (x # xs) v = (if x = v then xs else x # remove_first xs v)"

text \<open>
  Modelled from the spec: the class \<^verbatim>\<open>Communicant\<close> (CPISync/Communicants/Communicant.h)
  and its method \<^verbatim>\<open>resetCommCounters\<close> are not among the source files. Section 4.1 of the
  specification gives a transport running counters of the bytes sent and received since
  the last reset, and an operation that resets those counters.
\<close>

record Communicant =
  bytesSent :: nat
  bytesReceived :: nat

definition resetCommCounters :: "Communicant \<Rightarrow> Communicant" where
  "resetCommCounters c = c\<lparr>bytesSent := 0, bytesReceived := 0\<rparr>"

text \<open>
  \<^verbatim>\<open>SyncClient\<close> and \<^verbatim>\<open>SyncServer\<close> of the base class. The communicant and the two lists are
  passed by reference, so the model returns them next to the result and the object. The
  shared pointer \<^verbatim>\<open>commSync\<close> is taken to point to a communicant.
\<close>

record sync_outcome =
  success :: bool
  peer :: Communicant
  selfMinusOther :: "shared_ptr list"
  otherMinusSelf :: "shared_ptr list"
  strategy :: SyncMethod

definition SyncClient ::
  "Communicant \<Rightarrow> shared_ptr list \<Rightarrow> shared_ptr list \<Rightarrow> SyncMethod \<Rightarrow> sync_outcome" where
  "SyncClient commSync smo oms m =
     (let m' = m\<lparr>mySyncStats := reset ALL_STATS (mySyncStats m)\<rparr>;
          commSync' = resetCommCounters commSync
      in \<lparr>success = True, peer = commSync', selfMinusOther = smo, otherMinusSelf = oms,
          strategy = m'\<rparr>)"

definition SyncServer ::
  "Communicant \<Rightarrow> shared_ptr list \<Rightarrow> shared_ptr list \<Rightarrow> SyncMethod \<Rightarrow> sync_outcome" where
  "SyncServer commSync smo oms m =
     (let m' = m\<lparr>mySyncStats := reset ALL_STATS (mySyncStats m)\<rparr>;
          commSync' = resetCommCounters commSync
      in \<lparr>success = True, peer = commSync', selfMinusOther = smo, otherMinusSelf = oms,
          strategy = m'\<rparr>)"

text \<open>
  \<^verbatim>\<open>postProcessing_SET\<close>: the loop \<^verbatim>\<open>for (auto elem : otherMinusSelf) (pGenSync->*add)(elem)\<close>.
  The two member-function pointers are functions on the state of the object \<^verbatim>\<open>pGenSync\<close>
  points to; \<^verbatim>\<open>add\<close> returns nothing, \<^verbatim>\<open>del\<close> a boolean. A hook is taken to return
  (it neither throws nor runs forever), as a function of HOL does.
\<close>

fun postProcessing_SET ::
  "'d list \<Rightarrow> 'd list \<Rightarrow> ('d \<Rightarrow> 'g \<Rightarrow> 'g) \<Rightarrow> ('d \<Rightarrow> 'g \<Rightarrow> bool \<times> 'g) \<Rightarrow> 'g \<Rightarrow> 'g" where
  "postProcessing_SET [] myData add del g = g"
| "postProcessing_SET (elem # rest) myData add del g =
     postProcessing_SET rest myData add del (add elem g)"

text \<open>
  To observe the calls the hooks receive, they are run next to a log: each call appends
  its own mark and its argument to the log and then acts as the hook does.
\<close>

datatype 'd hook_call = AddCall 'd | DelCall 'd

definition logged_add ::
  "('d \<Rightarrow> 'g \<Rightarrow> 'g) \<Rightarrow> 'd \<Rightarrow> 'd hook_call list \<times> 'g \<Rightarrow> 'd hook_call list \<times> 'g" where
  "logged_add add elem st = (fst st @ [AddCall elem], add elem (snd st))"

definition logged_del ::
  "('d \<Rightarrow> 'g \<Rightarrow> bool \<times> 'g) \<Rightarrow> 'd \<Rightarrow> 'd hook_call list \<times> 'g
     \<Rightarrow> bool \<times> 'd hook_call list \<times> 'g" where
  "logged_del del elem st =
     (fst (del elem (snd st)), fst st @ [DelCall elem], snd (del elem (snd st)))"

section \<open>SyncMethod::TimerWarp and localTimer\<close>

text \<open>
  A \<^verbatim>\<open>TimerWarp\<close> keeps a reference to the statistics and the id of its timer. The
  constructor calls \<^verbatim>\<open>timerStart\<close>, the destructor \<^verbatim>\<open>timerEnd\<close>; the statistics referred to
  are those of the state the two run on.
\<close>

record TimerWarp =
  timerID :: StatID

definition TimerWarp_new :: "hr_clock \<Rightarrow> StatID \<Rightarrow> SyncStats \<times> nat \<Rightarrow> TimerWarp \<times> SyncStats \<times> nat" where
  "TimerWarp_new clk tid st = (\<lparr>timerID = tid\<rparr>, timerStart clk tid st)"

definition TimerWarp_delete :: "hr_clock \<Rightarrow> TimerWarp \<Rightarrow> SyncStats \<times> nat \<Rightarrow> SyncStats \<times> nat" where
  "TimerWarp_delete clk t st = timerEnd clk (timerID t) st"

text \<open>
  The class declares no copy constructor, so it has the implicit one: a copy refers to the
  same statistics and has the same id, and making it starts no timer. Its destructor is
  the one above.
\<close>

definition TimerWarp_copy :: "TimerWarp \<Rightarrow> TimerWarp" where
  "TimerWarp_copy t = \<lparr>timerID = timerID t\<rparr>"

text \<open>
  \<^verbatim>\<open>localTimer\<close> returns a \<^verbatim>\<open>TimerWarp\<close> by value, and a block takes it with
  \<^verbatim>\<open>auto _handler = localTimer(whichtimer);\<close>. Whether these two initialisations construct
  the object in place or copy a temporary and destroy it is the compiler's choice before
  C++17 (from C++17 on both are in place); the source does not fix it, so it is a
  parameter: \<open>elide_return\<close> for the \<^verbatim>\<open>return\<close> statement of \<^verbatim>\<open>localTimer\<close>,
  \<open>elide_init\<close> for the declaration of \<^verbatim>\<open>_handler\<close>. A temporary that is copied is
  destroyed right after the copy, and its destructor ends the timer as every destructor of
  a \<^verbatim>\<open>TimerWarp\<close> does.
\<close>

record copy_elision =
  elide_return :: bool
  elide_init :: bool

definition localTimer ::
  "copy_elision \<Rightarrow> hr_clock \<Rightarrow> StatID \<Rightarrow> SyncMethod \<times> nat \<Rightarrow> TimerWarp \<times> SyncMethod \<times> nat" where
  "localTimer ce clk tid st =
     (case st of (m, k) \<Rightarrow>
        (case TimerWarp_new clk tid (mySyncStats m, k) of
           (t, s1, k1) \<Rightarrow>
             if elide_return ce then (t, m\<lparr>mySyncStats := s1\<rparr>, k1)
             else (case TimerWarp_delete clk t (s1, k1) of
                     (s2, k2) \<Rightarrow> (TimerWarp_copy t, m\<lparr>mySyncStats := s2\<rparr>, k2))))"

text \<open>The declaration \<^verbatim>\<open>auto _handler = localTimer(whichtimer);\<close> that opens a block.\<close>

definition enter_block ::
  "copy_elision \<Rightarrow> hr_clock \<Rightarrow> StatID \<Rightarrow> SyncMethod \<times> nat \<Rightarrow> TimerWarp \<times> SyncMethod \<times> nat" where
  "enter_block ce clk tid st =
     (case localTimer ce clk tid st of
        (t, m1, k1) \<Rightarrow>
          if elide_init ce then (t, m1, k1)
          else (case TimerWarp_delete clk t (mySyncStats m1, k1) of
                  (s2, k2) \<Rightarrow> (TimerWarp_copy t, m1\<lparr>mySyncStats := s2\<rparr>, k2)))"

text \<open>
  The use the source prescribes: a nested block that starts with that declaration. The
  block's body runs on the object and either returns a value (\<open>Inr\<close>) or leaves by an
  exception (\<open>Inl\<close>); in both cases the block is left through the destructor of
  \<^verbatim>\<open>_handler\<close>, which runs on the statistics as the body left them, and the body's outcome
  is passed on. An exception is one that is caught further out, so that the stack is
  unwound.
\<close>

definition timed_block ::
  "copy_elision \<Rightarrow> hr_clock \<Rightarrow> StatID \<Rightarrow> (SyncMethod \<times> nat \<Rightarrow> ('e + 'a) \<times> SyncMethod \<times> nat)
     \<Rightarrow> SyncMethod \<times> nat \<Rightarrow> ('e + 'a) \<times> SyncMethod \<times> nat" where
  "timed_block ce clk tid body st =
     (case enter_block ce clk tid st of
        (handler, st1) \<Rightarrow>
          (case body st1 of
             (r, m2, k2) \<Rightarrow>
               (case TimerWarp_delete clk handler (mySyncStats m2, k2) of
                  (s3, k3) \<Rightarrow> (r, m2\<lparr>mySyncStats := s3\<rparr>, k3))))"

section \<open>GenSync\<close>

text \<open>
  GenSync.h declares the fields of \<^verbatim>\<open>GenSync\<close>; the bodies of its methods are not among
  the source files. The store \<^verbatim>\<open>myData\<close> is a list of pointers, \<^verbatim>\<open>myCommVec\<close> the registered
  communicants and \<^verbatim>\<open>mySyncVec\<close> the registered synchronization methods. A registered method
  is represented by its client-role session: run with a communicant on the state of the
  world \<open>'w\<close> (stores, statistics, transports), it either throws (\<open>Inl\<close>) or returns its
  boolean (\<open>Inr\<close>), and leaves a new state.
\<close>

type_synonym ('c, 'w, 'e) session = "'c \<Rightarrow> 'w \<Rightarrow> ('e + bool) \<times> 'w"

record ('d, 'c, 'w, 'e) GenSync =
  myData :: "'d list"
  myCommVec :: "'c list"
  mySyncVec :: "('c, 'w, 'e) session list"

datatype gensync_error = UnsupportedOperationError

text \<open>
  Modelled from the spec: the body of \<^verbatim>\<open>GenSync::dumpElements\<close> is missing. The header's
  comment and section 6 of the specification: it returns the ordered sequence of the items
  of the store.
\<close>

definition dumpElements :: "('d, 'c, 'w, 'e) GenSync \<Rightarrow> 'd list" where
  "dumpElements g = myData g"

text \<open>
  Modelled from the spec: the body of \<^verbatim>\<open>GenSync::delElem\<close> is missing (the header says
  "Not currently implemented"). Sections 4.5 and 7 of the specification: the operation is
  unsupported, it always fails with an UnsupportedOperationError and removes nothing.
\<close>

definition GenSync_delElem ::
  "'d \<Rightarrow> ('d, 'c, 'w, 'e) GenSync \<Rightarrow> (gensync_error + unit) \<times> ('d, 'c, 'w, 'e) GenSync" where
  "GenSync_delElem newDatum g = (Inl UnsupportedOperationError, g)"

text \<open>
  Modelled from the spec: the body of \<^verbatim>\<open>GenSync::startSync\<close> is missing. Section 4.5 of
  the specification: for each registered peer, in registration order, it initiates a
  client-role session using the strategy at the given index; a failed session (a false
  result, or an error, which section 7 has the orchestrator record as a failure) does not
  stop the sessions with the later peers, and the result is the conjunction of the
  outcomes. The specification does not say what an index outside the registered
  strategies does: the model gives no result there.
\<close>

fun succeeded :: "'e + bool \<Rightarrow> bool" where
  "succeeded (Inl e) = False"
| "succeeded (Inr b) = b"

fun sync_all :: "('c, 'w, 'e) session \<Rightarrow> 'c list \<Rightarrow> 'w \<Rightarrow> bool \<times> 'w" where
  "sync_all sess [] w = (True, w)"
| "sync_all sess (c # cs) w =
     (case sess c w of
        (r, w') \<Rightarrow> (case sync_all sess cs w' of (ok, w'') \<Rightarrow> (succeeded r \<and> ok, w'')))"

definition startSync :: "int \<Rightarrow> ('d, 'c, 'w, 'e) GenSync \<Rightarrow> 'w \<Rightarrow> (bool \<times> 'w) option" where
  "startSync sync_num g w =
     (if 0 \<le> sync_num \<and> sync_num < int (length (mySyncVec g))
      then Some (sync_all (mySyncVec g ! nat sync_num) (myCommVec g) w)
      else None)"

text \<open>
  The sessions a run over the communicants consists of, each with the communicant it was
  run against and its outcome, every session starting in the state its predecessor left.
\<close>

fun session_log :: "('c, 'w, 'e) session \<Rightarrow> 'c list \<Rightarrow> 'w \<Rightarrow> ('c \<times> ('e + bool)) list" where
  "session_log sess [] w = []"
| "session_log sess (c # cs) w =
     (case sess c w of (r, w') \<Rightarrow> (c, r) # session_log sess cs w')"

section \<open>Example inputs\<close>

text \<open>Concrete objects on which the theorems below are exercised.\<close>

definition example_method :: "shared_ptr list \<Rightarrow> SyncMethod" where
  "example_method xs = \<lparr>mySyncStats = SyncStats_new (\<lambda>i. 0) (\<lambda>i. 0), elements = xs\<rparr>"

text \<open>A clock that ticks in nanoseconds and advances by 1000 ticks between two readings.\<close>

definition example_clock :: hr_clock where
  "example_clock = \<lparr>now = (\<lambda>n. 1000 * int n), period_num = 1, period_den = 1000000000\<rparr>"

text \<open>A block body that reads the clock three times and then leaves by an exception.\<close>

definition failing_body :: "SyncMethod \<times> nat \<Rightarrow> (string + unit) \<times> SyncMethod \<times> nat" where
  "failing_body st = (Inl ''SyncFailureException'', fst st, snd st + 3)"

text \<open>A clock of the same period whose readings go back by 1000 ticks each time.\<close>

definition backstepping_clock :: hr_clock where
  "backstepping_clock =
     \<lparr>now = (\<lambda>n. 5000 - 1000 * int n), period_num = 1, period_den = 1000000000\<rparr>"

text \<open>Every object constructed in place, and every copy made.\<close>

definition in_place :: copy_elision where
  "in_place = \<lparr>elide_return = True, elide_init = True\<rparr>"

definition no_elision :: copy_elision where
  "no_elision = \<lparr>elide_return = False, elide_init = False\<rparr>"

text \<open>A block body that is itself a timed block on \<^verbatim>\<open>COMM_TIME\<close> around the failing body.\<close>

definition nested_body :: "SyncMethod \<times> nat \<Rightarrow> (string + unit) \<times> SyncMethod \<times> nat" where
  "nested_body st = timed_block in_place example_clock COMM_TIME failing_body st"

text \<open>Two objects with the same content at different addresses.\<close>

definition example_heap :: "int heap" where
  "example_heap = [1 \<mapsto> 42, 2 \<mapsto> 42]"

text \<open>
  A session that notes the communicant it ran against in the world and fails (returns
  false) on communicant 2, by an exception on communicant 3.
\<close>

definition example_session :: "(nat, nat list, string) session" where
  "example_session c w =
     (if c = 2 then Inr False else if c = 3 then Inl ''SyncFailureException'' else Inr True,
      w @ [c])"

definition example_gensync :: "(shared_ptr, nat, nat list, string) GenSync" where
  "example_gensync = \<lparr>myData = [], myCommVec = [1, 2, 3, 4], mySyncVec = [example_session]\<rparr>"

section \<open>Auxiliary facts\<close>

lemma erase_remove_filter: "erase_remove xs v = filter (\<lambda>e. e \<noteq> v) xs"
  by (induction xs) simp_all

lemma length_erase_remove: "length (erase_remove xs v) + count_list xs v = length xs"
  by (induction xs) simp_all

lemma length_erase_remove_less: "(length (erase_remove xs v) < length xs) = (v \<in> set xs)"
proof -
  have "(count_list xs v > 0) = (v \<in> set xs)"
    by (simp add: count_list_0_iff zero_less_iff_neq_zero)
  with length_erase_remove [of xs v] show ?thesis by linarith
qed

lemma erase_remove_absent: "v \<notin> set xs \<Longrightarrow> erase_remove xs v = xs"
  by (induction xs) auto

lemma erase_remove_append: "erase_remove (xs @ ys) v = erase_remove xs v @ erase_remove ys v"
  by (induction xs) simp_all

lemma counter_indices_eq: "counter_indices = [1, 2, 3, 4, 5]"
  by (simp add: counter_indices_def upt_rec)

lemma reset_all_zero:
  "c \<noteq> NONE \<Longrightarrow> c \<noteq> ALL_STATS \<Longrightarrow> getStat c (reset ALL_STATS s) = 0"
  by (cases c) (simp_all add: reset_def getStat_def counter_indices_eq)

lemma totalTime_reset_all: "totalTime (reset ALL_STATS s) = 0"
  using reset_all_zero [of COMM_TIME s] reset_all_zero [of IDLE_TIME s]
    reset_all_zero [of COMP_TIME s]
  by (simp add: totalTime_def getStat_def)

lemma microseconds_nonneg:
  assumes "0 \<le> d" and "0 < period_num clk" and "0 < period_den clk"
  shows "0 \<le> microseconds clk d"
proof -
  have "0 \<le> d * period_num clk * 1000000"
    using assms by simp
  moreover have "0 \<le> \<bar>d * period_num clk * 1000000\<bar> div \<bar>period_den clk\<bar>"
    using assms by (simp add: pos_imp_zdiv_nonneg_iff)
  ultimately show ?thesis
    using assms unfolding microseconds_def signed_divide_int_def
    by (simp add: sgn_if)
qed

lemma elapsed_seconds_nonneg:
  assumes "t0 \<le> t1" and "0 < period_num clk" and "0 < period_den clk"
  shows "0 \<le> elapsed_seconds clk t1 t0"
  using microseconds_nonneg [of "t1 - t0" clk] assms
  by (simp add: elapsed_seconds_def)

lemma enter_block_single:
  "tid \<noteq> ALL_STATS \<Longrightarrow> elide_return ce \<Longrightarrow> elide_init ce \<Longrightarrow>
     enter_block ce clk tid (m, k) =
       (\<lparr>timerID = tid\<rparr>,
        m\<lparr>mySyncStats := (mySyncStats m)\<lparr>startTimeArray :=
             (startTimeArray (mySyncStats m))(stat_index tid := now clk k)\<rparr>\<rparr>,
        Suc k)"
  by (simp add: enter_block_def localTimer_def TimerWarp_new_def timerStart_def)

lemma postProcessing_SET_fold: "postProcessing_SET oms mine add del g = fold add oms g"
  by (induction oms arbitrary: g) simp_all

lemma postProcessing_SET_logged:
  "postProcessing_SET oms mine (logged_add add) del' (tr, g) =
     (tr @ map AddCall oms, postProcessing_SET oms mine add del g)"
  by (induction oms arbitrary: tr g) (simp_all add: logged_add_def)

lemma sync_all_log:
  "sync_all sess cs w =
     (list_all (\<lambda>p. succeeded (snd p)) (session_log sess cs w),
      fold (\<lambda>c w. snd (sess c w)) cs w)"
  by (induction cs arbitrary: w) (simp_all split: prod.splits)

lemma session_log_comms: "map fst (session_log sess cs w) = cs"
  by (induction cs arbitrary: w) (simp_all split: prod.splits)

lemma session_log_nth:
  "i < length cs \<Longrightarrow>
     session_log sess cs w ! i =
       (cs ! i, fst (sess (cs ! i) (fold (\<lambda>c w. snd (sess c w)) (take i cs) w)))"
proof (induction cs arbitrary: w i)
  case Nil
  then show ?case by simp
next
  case (Cons c cs)
  show ?case
  proof (cases i)
    case 0
    then show ?thesis by (simp split: prod.splits)
  next
    case (Suc j)
    with Cons.prems have "j < length cs" by simp
    from Cons.IH [OF this] Suc show ?thesis by (simp split: prod.splits)
  qed
qed

section \<open>The store: delElem and addElem\<close>

text \<open>
  Claim C1, as amended. For every store and every datum, \<^verbatim>\<open>SyncMethod::delElem\<close> removes
  every stored element equal to the datum and keeps the others in their order; the
  statistics are untouched; the size drops by the number of occurrences of the datum; the
  result is true if and only if the size decreased, which is if and only if the datum
  was stored.
\<close>

theorem delElem_removes_all:
  "elements (snd (delElem datum m)) = filter (\<lambda>e. e \<noteq> datum) (elements m)
   \<and> mySyncStats (snd (delElem datum m)) = mySyncStats m
   \<and> getNumElem (snd (delElem datum m)) + count_list (elements m) datum = getNumElem m
   \<and> fst (delElem datum m) = (getNumElem (snd (delElem datum m)) < getNumElem m)
   \<and> fst (delElem datum m) = (datum \<in> set (elements m))"
  by (simp add: delElem_def Let_def getNumElem_def erase_remove_filter [symmetric]
      length_erase_remove length_erase_remove_less)

text \<open>
  Claim C1 as stated fails: on the store holding the pointers 1, 2, 1 the call
  \<^verbatim>\<open>delElem\<close> with pointer 1 leaves only pointer 2, where removing the first occurrence
  alone would leave 2, 1. Two occurrences went in one call.
\<close>

theorem delElem_first_only_counterexample:
  "elements (snd (delElem (Ptr 1) (example_method [Ptr 1, Ptr 2, Ptr 1]))) = [Ptr 2]
   \<and> remove_first (elements (example_method [Ptr 1, Ptr 2, Ptr 1])) (Ptr 1) = [Ptr 2, Ptr 1]
   \<and> elements (snd (delElem (Ptr 1) (example_method [Ptr 1, Ptr 2, Ptr 1])))
       \<noteq> remove_first (elements (example_method [Ptr 1, Ptr 2, Ptr 1])) (Ptr 1)
   \<and> getNumElem (example_method [Ptr 1, Ptr 2, Ptr 1])
       - getNumElem (snd (delElem (Ptr 1) (example_method [Ptr 1, Ptr 2, Ptr 1]))) = 2"
  by (simp add: delElem_def Let_def example_method_def getNumElem_def)

text \<open>
  Claim C8, as amended. \<^verbatim>\<open>addElem(datum)\<close> followed by \<^verbatim>\<open>delElem(datum)\<close> gives back the
  object as it was before the addition, content and size, exactly when the datum was not
  stored before; both calls return true in any case.
\<close>

theorem addElem_delElem_round_trip:
  "(snd (delElem datum (snd (addElem datum m))) = m) = (datum \<notin> set (elements m))
   \<and> (getNumElem (snd (delElem datum (snd (addElem datum m)))) = getNumElem m)
       = (datum \<notin> set (elements m))
   \<and> fst (addElem datum m)
   \<and> fst (delElem datum (snd (addElem datum m)))"
proof -
  let ?m' = "snd (delElem datum (snd (addElem datum m)))"
  have e: "elements ?m' = erase_remove (elements m) datum"
    by (simp add: delElem_def addElem_def Let_def erase_remove_append)
  have r: "?m' = m\<lparr>elements := erase_remove (elements m) datum\<rparr>"
    by (simp add: delElem_def addElem_def Let_def erase_remove_append)
  have a: "(?m' = m) = (datum \<notin> set (elements m))"
  proof
    assume "?m' = m"
    with e have "length (erase_remove (elements m) datum) = length (elements m)" by simp
    with length_erase_remove_less [of "elements m" datum] show "datum \<notin> set (elements m)"
      by simp
  next
    assume "datum \<notin> set (elements m)"
    with r show "?m' = m" by (simp add: erase_remove_absent)
  qed
  have b: "(getNumElem ?m' = getNumElem m) = (datum \<notin> set (elements m))"
    using length_erase_remove_less [of "elements m" datum] length_erase_remove [of "elements m" datum]
    by (simp add: getNumElem_def e) linarith
  have c: "fst (addElem datum m)"
    by (simp add: addElem_def)
  have d: "fst (delElem datum (snd (addElem datum m)))"
    by (simp add: delElem_def addElem_def Let_def erase_remove_append less_Suc_eq_le
        length_filter_le erase_remove_filter)
  from a b c d show ?thesis by blast
qed

text \<open>
  Claim C8 as stated fails: the store holding pointer 1 once has unique multiplicity for
  it, yet adding pointer 1 and deleting it leaves the store empty.
\<close>

theorem addElem_delElem_unique_counterexample:
  "count_list (elements (example_method [Ptr 1])) (Ptr 1) = 1
   \<and> elements (snd (delElem (Ptr 1) (snd (addElem (Ptr 1) (example_method [Ptr 1]))))) = []
   \<and> snd (delElem (Ptr 1) (snd (addElem (Ptr 1) (example_method [Ptr 1]))))
       \<noteq> example_method [Ptr 1]
   \<and> getNumElem (snd (delElem (Ptr 1) (snd (addElem (Ptr 1) (example_method [Ptr 1])))))
       \<noteq> getNumElem (example_method [Ptr 1])"
  by (simp add: delElem_def addElem_def Let_def example_method_def getNumElem_def)

text \<open>
  Claim C10. \<^verbatim>\<open>delElem\<close> compares shared pointers, not the objects they point to: an entry
  is gone after the call exactly when it is the pointer given. So an entry at another
  address stays in the store, whatever the heap holds there and in particular when both
  objects have the same content; and when the pointer given is not stored, the call
  returns false and changes nothing.
\<close>

theorem delElem_pointer_identity:
  "(e \<in> set (elements (snd (delElem datum m)))) = (e \<in> set (elements m) \<and> e \<noteq> datum)
   \<and> (q \<in> set (elements m) \<and> q \<noteq> datum \<and> deref h q = deref h datum
        \<longrightarrow> q \<in> set (elements (snd (delElem datum m))))
   \<and> (datum \<notin> set (elements m)
        \<longrightarrow> \<not> fst (delElem datum m) \<and> snd (delElem datum m) = m)"
  by (auto simp add: delElem_def Let_def erase_remove_filter erase_remove_absent [unfolded erase_remove_filter])

theorem delElem_pointer_identity_witness:
  "Ptr 2 \<in> set (elements (example_method [Ptr 2, Ptr 1]))
   \<and> Ptr 2 \<noteq> Ptr 1
   \<and> deref example_heap (Ptr 2) = deref example_heap (Ptr 1)
   \<and> Ptr 2 \<in> set (elements (snd (delElem (Ptr 1) (example_method [Ptr 2, Ptr 1]))))
   \<and> Ptr 1 \<notin> set (elements (snd (delElem (Ptr 1) (example_method [Ptr 2, Ptr 1]))))
   \<and> Ptr 1 \<notin> set (elements (example_method [Ptr 2]))
   \<and> \<not> fst (delElem (Ptr 1) (example_method [Ptr 2]))
   \<and> snd (delElem (Ptr 1) (example_method [Ptr 2])) = example_method [Ptr 2]"
proof -
  have a: "Ptr 2 \<in> set (elements (example_method [Ptr 2, Ptr 1]))" "Ptr 2 \<noteq> Ptr 1"
    "deref example_heap (Ptr 2) = deref example_heap (Ptr 1)"
    "Ptr 1 \<notin> set (elements (example_method [Ptr 2]))"
    by (simp_all add: example_method_def example_heap_def)
  from a delElem_pointer_identity [of "Ptr 2" "Ptr 1" "example_method [Ptr 2, Ptr 1]" "Ptr 2" example_heap]
  have b: "Ptr 2 \<in> set (elements (snd (delElem (Ptr 1) (example_method [Ptr 2, Ptr 1]))))"
    by blast
  from a delElem_pointer_identity [of "Ptr 1" "Ptr 1" "example_method [Ptr 2, Ptr 1]" "Ptr 2" example_heap]
  have c: "Ptr 1 \<notin> set (elements (snd (delElem (Ptr 1) (example_method [Ptr 2, Ptr 1]))))"
    by blast
  from a delElem_pointer_identity [of "Ptr 2" "Ptr 1" "example_method [Ptr 2]" "Ptr 2" example_heap]
  have d: "\<not> fst (delElem (Ptr 1) (example_method [Ptr 2]))
      \<and> snd (delElem (Ptr 1) (example_method [Ptr 2])) = example_method [Ptr 2]"
    by blast
  from a b c d show ?thesis by blast
qed

section \<open>The statistics\<close>

text \<open>
  Claim C2, as amended. For every StatID and every amount, \<^verbatim>\<open>increment\<close> adds to the named
  counter, or to each of the five counters when the id is \<^verbatim>\<open>ALL\<close>, and changes nothing when
  the id is \<^verbatim>\<open>NONE\<close>; the time counters receive the amount itself, the byte counters
  \<^verbatim>\<open>XMIT\<close> and \<^verbatim>\<open>RECV\<close> its floor, the amount rounded toward minus infinity. The start times
  are untouched. The floor is the amount truncated toward zero exactly when the amount is
  not negative or is a whole number.
\<close>

theorem increment_adds_floor_to_bytes:
  "getStat c (increment statID incr s) =
     (if c \<noteq> NONE \<and> c \<noteq> ALL_STATS \<and> (c = statID \<or> statID = ALL_STATS)
      then getStat c s + (if c = XMIT \<or> c = RECV then of_int \<lfloor>incr\<rfloor> else incr)
      else getStat c s)
   \<and> startTimeArray (increment statID incr s) = startTimeArray s
   \<and> (\<lfloor>incr\<rfloor> = truncate_toward_zero incr) = (0 \<le> incr \<or> of_int \<lfloor>incr\<rfloor> = incr)"
proof -
  have a: "getStat c (increment statID incr s) =
     (if c \<noteq> NONE \<and> c \<noteq> ALL_STATS \<and> (c = statID \<or> statID = ALL_STATS)
      then getStat c s + (if c = XMIT \<or> c = RECV then of_int \<lfloor>incr\<rfloor> else incr)
      else getStat c s)"
    by (cases c; cases statID) (simp_all add: increment_def getStat_def counter_indices_eq)
  have b: "startTimeArray (increment statID incr s) = startTimeArray s"
    by (simp add: increment_def counter_indices_eq)
  have c: "(\<lfloor>incr\<rfloor> = truncate_toward_zero incr) = (0 \<le> incr \<or> of_int \<lfloor>incr\<rfloor> = incr)"
    unfolding truncate_toward_zero_def
    by (auto simp: ceiling_altdef)
  from a b c show ?thesis by blast
qed

text \<open>
  Claim C2 as stated fails on a negative fractional amount: incrementing \<^verbatim>\<open>XMIT\<close> by
  \<open>-3/2\<close> from zero gives \<open>-2\<close>, where the amount truncated toward zero, \<open>-1\<close>, would
  give \<open>-1\<close>.
\<close>

theorem increment_truncation_counterexample:
  "getStat XMIT (increment XMIT (- 3 / 2) (SyncStats_new (\<lambda>i. 0) (\<lambda>i. 0))) = - 2
   \<and> getStat XMIT (SyncStats_new (\<lambda>i. 0) (\<lambda>i. 0)) + of_int (truncate_toward_zero (- 3 / 2)) = - 1
   \<and> getStat XMIT (increment XMIT (- 3 / 2) (SyncStats_new (\<lambda>i. 0) (\<lambda>i. 0)))
       \<noteq> getStat XMIT (SyncStats_new (\<lambda>i. 0) (\<lambda>i. 0)) + of_int (truncate_toward_zero (- 3 / 2))"
  by (simp add: increment_def getStat_def counter_indices_eq SyncStats_new_def
      truncate_toward_zero_def)

text \<open>
  Claim C3. From every SyncStats, at every clock, after every sequence of calls of
  \<^verbatim>\<open>reset\<close>, \<^verbatim>\<open>increment\<close>, \<^verbatim>\<open>timerStart\<close> and \<^verbatim>\<open>timerEnd\<close>, and after each call of the
  sequence (every prefix of it), \<^verbatim>\<open>totalTime()\<close> is the sum of the counters \<^verbatim>\<open>COMM_TIME\<close>,
  \<^verbatim>\<open>IDLE_TIME\<close> and \<^verbatim>\<open>COMP_TIME\<close> as \<^verbatim>\<open>getStat\<close> reads them.
\<close>

theorem totalTime_is_sum_of_time_counters:
  "totalTime (fst (do_calls clk (take n calls) (s, k))) =
     getStat COMM_TIME (fst (do_calls clk (take n calls) (s, k)))
     + getStat IDLE_TIME (fst (do_calls clk (take n calls) (s, k)))
     + getStat COMP_TIME (fst (do_calls clk (take n calls) (s, k)))"
  by (simp add: totalTime_def getStat_def)

section \<open>Sessions of the base class\<close>

text \<open>
  Claim C4. \<^verbatim>\<open>SyncMethod::SyncClient\<close> and \<^verbatim>\<open>SyncMethod::SyncServer\<close> leave the five
  counters of the object's statistics at zero (hence the total time too) and the byte
  counters of the communicant reset; whatever the two output lists held before the call is
  a prefix of what they hold after it; the store is untouched and the result is true.
  The two methods agree.
\<close>

theorem sync_resets_stats_and_keeps_lists:
  "getStat XMIT (mySyncStats (strategy (SyncClient commSync smo oms m))) = 0
   \<and> getStat RECV (mySyncStats (strategy (SyncClient commSync smo oms m))) = 0
   \<and> getStat COMM_TIME (mySyncStats (strategy (SyncClient commSync smo oms m))) = 0
   \<and> getStat IDLE_TIME (mySyncStats (strategy (SyncClient commSync smo oms m))) = 0
   \<and> getStat COMP_TIME (mySyncStats (strategy (SyncClient commSync smo oms m))) = 0
   \<and> totalTime (mySyncStats (strategy (SyncClient commSync smo oms m))) = 0
   \<and> peer (SyncClient commSync smo oms m) = resetCommCounters commSync
   \<and> bytesSent (peer (SyncClient commSync smo oms m)) = 0
   \<and> bytesReceived (peer (SyncClient commSync smo oms m)) = 0
   \<and> prefix smo (selfMinusOther (SyncClient commSync smo oms m))
   \<and> prefix oms (otherMinusSelf (SyncClient commSync smo oms m))
   \<and> elements (strategy (SyncClient commSync smo oms m)) = elements m
   \<and> success (SyncClient commSync smo oms m)
   \<and> SyncServer commSync smo oms m = SyncClient commSync smo oms m"
  by (simp add: SyncClient_def SyncServer_def Let_def reset_all_zero resetCommCounters_def
      totalTime_reset_all)

section \<open>The scoped timer\<close>

text \<open>
  Claim C5, as amended. A block that starts with \<^verbatim>\<open>auto _handler = localTimer(tid)\<close> for a
  single counter (any id but \<^verbatim>\<open>ALL\<close>, so each of the three time counters), with the
  handler constructed in place, is entered when \<open>k\<close> clock readings have been taken.
  Whether its body returns or fails, with the object \<open>mb\<close> and \<open>kb\<close> readings taken, the
  block passes the body's outcome on and the destructor runs once: one more reading is
  taken, and the counter is the counter as the body left it plus the time from the start
  time held in the counter's slot to that reading; nothing else changes. When the body has
  not restarted the timer of this counter, that time is the time between the reading at the
  entry and the reading at the exit; and when moreover the clock has not stepped back
  between these two readings and its tick period is positive, it is not negative.
\<close>

theorem timed_block_adds_elapsed_once:
  assumes "tid \<noteq> ALL_STATS" and "elide_return ce" and "elide_init ce"
    and "body (snd (enter_block ce clk tid (m, k))) = (r, mb, kb)"
  shows "timed_block ce clk tid body (m, k) =
           (r,
            mb\<lparr>mySyncStats := (mySyncStats mb)\<lparr>dataArray := (dataArray (mySyncStats mb))
               (stat_index tid := dataArray (mySyncStats mb) (stat_index tid)
                  + elapsed_seconds clk (now clk kb)
                      (startTimeArray (mySyncStats mb) (stat_index tid)))\<rparr>\<rparr>,
            Suc kb)
         \<and> startTimeArray (mySyncStats (fst (snd (enter_block ce clk tid (m, k)))))
               (stat_index tid) = now clk k
         \<and> (startTimeArray (mySyncStats mb) (stat_index tid) =
               startTimeArray (mySyncStats (fst (snd (enter_block ce clk tid (m, k)))))
                 (stat_index tid)
             \<longrightarrow> getStat tid (mySyncStats (fst (snd (timed_block ce clk tid body (m, k))))) =
                   getStat tid (mySyncStats mb) + elapsed_seconds clk (now clk kb) (now clk k))
         \<and> (now clk k \<le> now clk kb \<and> 0 < period_num clk \<and> 0 < period_den clk
             \<longrightarrow> 0 \<le> elapsed_seconds clk (now clk kb) (now clk k))"
proof -
  note l = enter_block_single [OF assms(1) assms(2) assms(3), of clk m k]
  from assms(4) l have b:
    "body (m\<lparr>mySyncStats := (mySyncStats m)\<lparr>startTimeArray :=
        (startTimeArray (mySyncStats m))(stat_index tid := now clk k)\<rparr>\<rparr>, Suc k) = (r, mb, kb)"
    by simp
  have e: "timed_block ce clk tid body (m, k) =
           (r,
            mb\<lparr>mySyncStats := (mySyncStats mb)\<lparr>dataArray := (dataArray (mySyncStats mb))
               (stat_index tid := dataArray (mySyncStats mb) (stat_index tid)
                  + elapsed_seconds clk (now clk kb)
                      (startTimeArray (mySyncStats mb) (stat_index tid)))\<rparr>\<rparr>,
            Suc kb)"
    using assms(1)
    by (simp add: timed_block_def l b TimerWarp_delete_def timerEnd_def)
  have s: "startTimeArray (mySyncStats (fst (snd (enter_block ce clk tid (m, k)))))
               (stat_index tid) = now clk k"
    by (simp add: l)
  have g: "startTimeArray (mySyncStats mb) (stat_index tid) =
               startTimeArray (mySyncStats (fst (snd (enter_block ce clk tid (m, k)))))
                 (stat_index tid)
             \<longrightarrow> getStat tid (mySyncStats (fst (snd (timed_block ce clk tid body (m, k))))) =
                   getStat tid (mySyncStats mb) + elapsed_seconds clk (now clk kb) (now clk k)"
    by (simp add: e s getStat_def)
  have p: "now clk k \<le> now clk kb \<and> 0 < period_num clk \<and> 0 < period_den clk
             \<longrightarrow> 0 \<le> elapsed_seconds clk (now clk kb) (now clk k)"
    using elapsed_seconds_nonneg [of "now clk k" "now clk kb" clk] by blast
  from e s g p show ?thesis by blast
qed

text \<open>
  The theorem at a block on \<^verbatim>\<open>COMM_TIME\<close> whose body fails after three clock readings: the
  exception is passed on and the counter, zero before, holds the four microseconds between
  the first reading and the fifth.
\<close>

theorem timed_block_adds_elapsed_once_witness:
  "COMM_TIME \<noteq> ALL_STATS \<and> elide_return in_place \<and> elide_init in_place
   \<and> failing_body (snd (enter_block in_place example_clock COMM_TIME (example_method [], 0))) =
       (Inl ''SyncFailureException'',
        fst (snd (enter_block in_place example_clock COMM_TIME (example_method [], 0))), 4)
   \<and> now example_clock 0 \<le> now example_clock 4
   \<and> 0 < period_num example_clock \<and> 0 < period_den example_clock
   \<and> fst (timed_block in_place example_clock COMM_TIME failing_body (example_method [], 0))
        = Inl ''SyncFailureException''
   \<and> snd (snd (timed_block in_place example_clock COMM_TIME failing_body (example_method [], 0)))
        = 5
   \<and> getStat COMM_TIME (mySyncStats (fst (snd
        (timed_block in_place example_clock COMM_TIME failing_body (example_method [], 0)))))
        = 4 / 1000000
   \<and> 0 \<le> elapsed_seconds example_clock (now example_clock 4) (now example_clock 0)"
proof -
  have b: "failing_body (snd (enter_block in_place example_clock COMM_TIME (example_method [], 0))) =
       (Inl ''SyncFailureException'',
        fst (snd (enter_block in_place example_clock COMM_TIME (example_method [], 0))), 4)"
    by (simp add: failing_body_def enter_block_def localTimer_def TimerWarp_new_def
        timerStart_def in_place_def)
  have c: "now example_clock 0 \<le> now example_clock 4"
    and p: "0 < period_num example_clock" and q: "0 < period_den example_clock"
    by (simp_all add: example_clock_def)
  have n: "COMM_TIME \<noteq> ALL_STATS" by simp
  have i: "elide_return in_place" and j: "elide_init in_place"
    by (simp_all add: in_place_def)
  have z: "getStat COMM_TIME (mySyncStats (fst (snd
      (enter_block in_place example_clock COMM_TIME (example_method [], 0))))) = 0"
    by (simp add: enter_block_def localTimer_def TimerWarp_new_def timerStart_def getStat_def
        example_method_def SyncStats_new_def counter_indices_eq in_place_def)
  have v: "elapsed_seconds example_clock (now example_clock 4) (now example_clock 0) = 4 / 1000000"
    by (simp add: elapsed_seconds_def microseconds_def example_clock_def signed_divide_int_def)
  note t = timed_block_adds_elapsed_once [where tid = COMM_TIME and body = failing_body
      and ce = in_place and clk = example_clock and m = "example_method []" and k = 0 and kb = 4,
      OF n i j b]
  from t have f: "fst (timed_block in_place example_clock COMM_TIME failing_body (example_method [], 0))
        = Inl ''SyncFailureException''"
    by simp
  from t have h: "snd (snd (timed_block in_place example_clock COMM_TIME failing_body
      (example_method [], 0))) = 5"
    by simp
  from t have "getStat COMM_TIME (mySyncStats (fst (snd
        (timed_block in_place example_clock COMM_TIME failing_body (example_method [], 0))))) =
      getStat COMM_TIME (mySyncStats (fst (snd
        (enter_block in_place example_clock COMM_TIME (example_method [], 0)))))
       + elapsed_seconds example_clock (now example_clock 4) (now example_clock 0)"
    by blast
  then have g: "getStat COMM_TIME (mySyncStats (fst (snd
        (timed_block in_place example_clock COMM_TIME failing_body (example_method [], 0)))))
        = 4 / 1000000"
    by (simp only: z v)
  from t c p q have w: "0 \<le> elapsed_seconds example_clock (now example_clock 4) (now example_clock 0)"
    by blast
  from n i j b c p q f h g w show ?thesis by blast
qed

text \<open>
  Claim C5 as stated fails, in three ways. A block on \<^verbatim>\<open>COMM_TIME\<close> whose body is another
  block on \<^verbatim>\<open>COMM_TIME\<close>, at a clock that advances by a microsecond per reading: the body
  leaves the counter at 4 microseconds, the outer block is entered at reading 0 and left at
  reading 6, a region of 6 microseconds, yet the counter ends at 9 microseconds and not at
  10, since the inner block has restarted the timer. A block at a clock that steps back:
  the counter, zero before, ends at minus 4 microseconds. A block whose handler is not
  constructed in place: the destructor runs three times, seven readings are taken where
  the block constructed in place takes five, and the counter of a region of 6
  microseconds ends at 9.
\<close>

theorem timed_block_every_entry_counterexample:
  "getStat COMM_TIME (mySyncStats (fst (snd (nested_body (snd
      (enter_block in_place example_clock COMM_TIME (example_method [], 0))))))) = 4 / 1000000
   \<and> snd (snd (timed_block in_place example_clock COMM_TIME nested_body (example_method [], 0)))
       = 7
   \<and> elapsed_seconds example_clock (now example_clock 6) (now example_clock 0) = 6 / 1000000
   \<and> getStat COMM_TIME (mySyncStats (fst (snd
        (timed_block in_place example_clock COMM_TIME nested_body (example_method [], 0)))))
       = 9 / 1000000
   \<and> getStat COMM_TIME (mySyncStats (fst (snd
        (timed_block in_place example_clock COMM_TIME nested_body (example_method [], 0)))))
       \<noteq> getStat COMM_TIME (mySyncStats (fst (snd (nested_body (snd
            (enter_block in_place example_clock COMM_TIME (example_method [], 0)))))))
          + elapsed_seconds example_clock (now example_clock 6) (now example_clock 0)
   \<and> getStat COMM_TIME (mySyncStats (fst (snd
        (timed_block in_place backstepping_clock COMM_TIME failing_body (example_method [], 0)))))
       = - 4 / 1000000
   \<and> getStat COMM_TIME (mySyncStats (fst (snd
        (timed_block in_place backstepping_clock COMM_TIME failing_body (example_method [], 0)))))
       < 0
   \<and> snd (snd (timed_block no_elision example_clock COMM_TIME failing_body (example_method [], 0)))
       = 7
   \<and> getStat COMM_TIME (mySyncStats (fst (snd
        (timed_block no_elision example_clock COMM_TIME failing_body (example_method [], 0)))))
       = 9 / 1000000"
  by (simp add: nested_body_def timed_block_def enter_block_def localTimer_def TimerWarp_new_def
      TimerWarp_delete_def TimerWarp_copy_def timerStart_def timerEnd_def failing_body_def
      in_place_def no_elision_def example_clock_def backstepping_clock_def example_method_def
      SyncStats_new_def counter_indices_eq getStat_def elapsed_seconds_def microseconds_def
      signed_divide_int_def)

section \<open>Post-processing\<close>

text \<open>
  Claim C6. For every list \<^verbatim>\<open>otherMinusSelf\<close>, every list \<^verbatim>\<open>myData\<close> and every pair of
  hooks, \<^verbatim>\<open>postProcessing_SET\<close> calls the add hook once for each element of
  \<^verbatim>\<open>otherMinusSelf\<close>, in the order of the list, and never the delete hook: run with logging
  hooks from an empty log, the log holds one add call for each element of
  \<^verbatim>\<open>otherMinusSelf\<close>, in the order of the list, and nothing else, and the object is what
  adding the elements one after the other makes of it.
\<close>

theorem postProcessing_SET_adds_each_once:
  "postProcessing_SET oms mine (logged_add add) (logged_del del) ([], g) =
     (map AddCall oms, fold add oms g)
   \<and> postProcessing_SET oms mine add del g = fold add oms g"
proof -
  have "postProcessing_SET oms mine (logged_add add) (logged_del del) ([], g) =
          (map AddCall oms, postProcessing_SET oms mine add del g)"
    using postProcessing_SET_logged [of oms mine add "logged_del del" "[]" g] by simp
  then show ?thesis by (simp add: postProcessing_SET_fold)
qed

section \<open>The orchestrator\<close>

text \<open>
  Claim C7. For every GenSync and every index of a registered strategy,
  \<^verbatim>\<open>startSync\<close> returns a result; the sessions run are one per registered communicant, in
  the order of registration, each started in the state the one before it left, whatever
  the outcomes of the earlier ones were; the state left is the one the last session
  leaves; and the boolean returned is the conjunction of the outcomes of all sessions.
\<close>

theorem startSync_runs_every_session:
  assumes "0 \<le> sync_num" and "sync_num < int (length (mySyncVec g))"
  shows "startSync sync_num g w =
           Some (list_all (\<lambda>p. succeeded (snd p))
                   (session_log (mySyncVec g ! nat sync_num) (myCommVec g) w),
                 fold (\<lambda>c w. snd ((mySyncVec g ! nat sync_num) c w)) (myCommVec g) w)
         \<and> map fst (session_log (mySyncVec g ! nat sync_num) (myCommVec g) w) = myCommVec g
         \<and> (\<forall>i < length (myCommVec g).
              session_log (mySyncVec g ! nat sync_num) (myCommVec g) w ! i =
                (myCommVec g ! i,
                 fst ((mySyncVec g ! nat sync_num) (myCommVec g ! i)
                   (fold (\<lambda>c w. snd ((mySyncVec g ! nat sync_num) c w))
                      (take i (myCommVec g)) w))))"
  using assms by (simp add: startSync_def sync_all_log session_log_comms session_log_nth)

text \<open>
  The theorem at four communicants of which the second and the third fail: all four
  sessions are run, in order, and the result is false.
\<close>

theorem startSync_runs_every_session_witness:
  "(0::int) \<le> 0 \<and> 0 < int (length (mySyncVec example_gensync))
   \<and> startSync 0 example_gensync [] = Some (False, [1, 2, 3, 4])
   \<and> session_log (mySyncVec example_gensync ! nat 0) (myCommVec example_gensync) [] =
       [(1, Inr True), (2, Inr False), (3, Inl ''SyncFailureException''), (4, Inr True)]"
proof -
  have a: "(0::int) \<le> 0" and b: "0 < int (length (mySyncVec example_gensync))"
    by (simp_all add: example_gensync_def)
  have l: "session_log (mySyncVec example_gensync ! nat 0) (myCommVec example_gensync) [] =
       [(1, Inr True), (2, Inr False), (3, Inl ''SyncFailureException''), (4, Inr True)]"
    by (simp add: example_gensync_def example_session_def)
  have f: "fold (\<lambda>c w. snd ((mySyncVec example_gensync ! nat 0) c w))
      (myCommVec example_gensync) [] = [1, 2, 3, 4]"
    by (simp add: example_gensync_def example_session_def)
  from startSync_runs_every_session [OF a b, of "[]"]
  have "startSync 0 example_gensync [] =
      Some (list_all (\<lambda>p. succeeded (snd p))
              (session_log (mySyncVec example_gensync ! nat 0) (myCommVec example_gensync) []),
            fold (\<lambda>c w. snd ((mySyncVec example_gensync ! nat 0) c w))
              (myCommVec example_gensync) [])"
    by blast
  then have s: "startSync 0 example_gensync [] = Some (False, [1, 2, 3, 4])"
    by (simp only: l f) simp
  from a b s l show ?thesis by blast
qed

text \<open>
  Claim C9. For every GenSync and every datum, \<^verbatim>\<open>dumpElements()\<close> returns after
  \<^verbatim>\<open>GenSync::delElem\<close> the sequence it returned before; the call itself fails as unsupported.
\<close>

theorem GenSync_delElem_keeps_dumpElements:
  "dumpElements (snd (GenSync_delElem newDatum g)) = dumpElements g
   \<and> fst (GenSync_delElem newDatum g) = Inl UnsupportedOperationError"
  by (simp add: GenSync_delElem_def)

end
